theory Spec2Isabelle
  imports Complex_Main
begin

section \<open>The sonoluminescence model: data and operations\<close>

text \<open>
  The C++ type \<^verbatim>\<open>double\<close> is modelled by \<^typ>\<open>real\<close>, and \<^verbatim>\<open>M_PI\<close> by \<^term>\<open>pi\<close>:
  the arithmetic of the model is exact. Rounding, overflow, infinities, NaN and signed
  zeros have no counterpart here. In particular \<^verbatim>\<open>1.0 / 0.0\<close> is an infinity in C++
  and \<^term>\<open>0::real\<close> in HOL, so the model follows the code only for a drive frequency
  other than zero; every statement below that depends on the arithmetic of a step
  assumes a positive frequency. The elapsed time of the model is the exact sum of the
  increments, which the rounded sum of the code only approximates.
\<close>

subsection \<open>SonolumiPhysics.h: the model's fields\<close>

record SonolumiPhysics =
  m_frequency_hz :: real
  m_pressure_atm :: real
  m_ambient_radius_mm :: real
  m_gas_type :: string
  m_liquid_type :: string
  m_time :: real
  m_current_radius :: real
  m_max_temperature :: real
  m_light_intensity :: real

text \<open>
  The constructor \<^verbatim>\<open>SonolumiPhysics::SonolumiPhysics()\<close>: every number is zero, the two
  strings are default-constructed, hence empty.
\<close>

definition SonolumiPhysics_init :: SonolumiPhysics where
  "SonolumiPhysics_init =
     \<lparr> m_frequency_hz = 0, m_pressure_atm = 0, m_ambient_radius_mm = 0,
       m_gas_type = [], m_liquid_type = [],
       m_time = 0, m_current_radius = 0, m_max_temperature = 0, m_light_intensity = 0 \<rparr>"

subsection \<open>SonolumiPhysics.cpp: setters\<close>

definition set_frequency :: "real \<Rightarrow> SonolumiPhysics \<Rightarrow> SonolumiPhysics" where
  "set_frequency freq_hz m = m\<lparr>m_frequency_hz := freq_hz\<rparr>"

definition set_pressure :: "real \<Rightarrow> SonolumiPhysics \<Rightarrow> SonolumiPhysics" where
  "set_pressure pressure_atm m = m\<lparr>m_pressure_atm := pressure_atm\<rparr>"

definition set_ambient_radius :: "real \<Rightarrow> SonolumiPhysics \<Rightarrow> SonolumiPhysics" where
  "set_ambient_radius radius_mm m =
     m\<lparr>m_ambient_radius_mm := radius_mm, m_current_radius := radius_mm\<rparr>"

definition set_gas_type :: "string \<Rightarrow> SonolumiPhysics \<Rightarrow> SonolumiPhysics" where
  "set_gas_type ty m = m\<lparr>m_gas_type := ty\<rparr>"

definition set_liquid_type :: "string \<Rightarrow> SonolumiPhysics \<Rightarrow> SonolumiPhysics" where
  "set_liquid_type ty m = m\<lparr>m_liquid_type := ty\<rparr>"

subsection \<open>SonolumiPhysics.cpp: the step\<close>

text \<open>
  \<^verbatim>\<open>fmod(x, y)\<close> of \<^verbatim>\<open><cmath>\<close>: \<open>x - n * y\<close> where \<open>n\<close> is the quotient \<open>x / y\<close>
  truncated towards zero, so the result has the sign of \<open>x\<close> and a magnitude below
  that of \<open>y\<close>. (For \<open>y = 0\<close> the C function returns NaN; the model returns \<open>x\<close>.)
\<close>

definition trunc :: "real \<Rightarrow> int" where
  "trunc q = (if 0 \<le> q then \<lfloor>q\<rfloor> else \<lceil>q\<rceil>)"

definition fmod :: "real \<Rightarrow> real \<Rightarrow> real" where
  "fmod x y = x - of_int (trunc (x / y)) * y"

definition model_thermal_emission :: "real \<Rightarrow> real" where
  "model_thermal_emission temp =
     (if temp < 1000 then 0 else exp ((temp - 1000) / 10000))"

definition simulate_step :: "SonolumiPhysics \<Rightarrow> SonolumiPhysics" where
  "simulate_step m0 =
     (let m = m0\<lparr>m_time := m_time m0 + 1 / 60\<rparr>;
          period = 1 / m_frequency_hz m;
          t_in_period = fmod (m_time m) period
      in if t_in_period < period * 0.9 then
           m\<lparr>m_current_radius :=
                m_ambient_radius_mm m * (1 + 1 * sin (t_in_period / period * pi)),
             m_max_temperature := 0\<rparr>
         else
           (let m1 = m\<lparr>m_current_radius :=
                  m_ambient_radius_mm m *
                    (1 - 0.5 * sin ((t_in_period - period * 0.9) / (period * 0.1) * pi))\<rparr>
            in if m_current_radius m1 < m_ambient_radius_mm m1 * 0.5 then
                 (let compression_ratio = m_ambient_radius_mm m1 * 0.5 / m_current_radius m1;
                      m2 = m1\<lparr>m_max_temperature := 50000 * compression_ratio\<rparr>
                  in m2\<lparr>m_light_intensity := model_thermal_emission (m_max_temperature m2)\<rparr>)
               else m1\<lparr>m_max_temperature := 0, m_light_intensity := 0\<rparr>))"

definition get_radius :: "SonolumiPhysics \<Rightarrow> real" where
  "get_radius m = m_current_radius m"

definition get_max_temperature :: "SonolumiPhysics \<Rightarrow> real" where
  "get_max_temperature m = m_max_temperature m"

definition get_emitted_light :: "SonolumiPhysics \<Rightarrow> real" where
  "get_emitted_light m = m_light_intensity m"

subsection \<open>simulator.h, simulator.cpp: the facade\<close>

record Simulator =
  physics :: SonolumiPhysics
  current_bubble_radius :: real
  current_peak_temperature :: real
  current_light_intensity :: real

text \<open>
  \<^verbatim>\<open>Simulator::set_parameters\<close>: the five setters of the model in the order of the
  source, then the reset of the facade's own three fields. The line written to
  \<^verbatim>\<open>std::cout\<close> changes no state and is left out.
\<close>

definition set_parameters ::
  "real \<Rightarrow> real \<Rightarrow> real \<Rightarrow> string \<Rightarrow> string \<Rightarrow> Simulator \<Rightarrow> Simulator" where
  "set_parameters frequency_hz pressure_atm radius_mm gas_type liquid_type s =
     (let p1 = set_frequency frequency_hz (physics s);
          p2 = set_pressure pressure_atm p1;
          p3 = set_ambient_radius radius_mm p2;
          p4 = set_gas_type gas_type p3;
          p5 = set_liquid_type liquid_type p4
      in s\<lparr>physics := p5,
           current_bubble_radius := radius_mm,
           current_peak_temperature := 0,
           current_light_intensity := 0\<rparr>)"

text \<open>
  The constructor \<^verbatim>\<open>Simulator::Simulator()\<close>: the member \<^verbatim>\<open>physics\<close> is
  default-constructed, the three fields are zero, and the body applies the defaults.
\<close>

definition Simulator_init :: Simulator where
  "Simulator_init =
     set_parameters 20000 1.35 0.005 ''Argon'' ''Water''
       \<lparr> physics = SonolumiPhysics_init, current_bubble_radius = 0,
         current_peak_temperature = 0, current_light_intensity = 0 \<rparr>"

definition step :: "Simulator \<Rightarrow> Simulator" where
  "step s =
     (let p = simulate_step (physics s)
      in s\<lparr>physics := p,
           current_bubble_radius := get_radius p,
           current_peak_temperature := get_max_temperature p,
           current_light_intensity := get_emitted_light p\<rparr>)"

definition get_bubble_radius :: "Simulator \<Rightarrow> real" where
  "get_bubble_radius s = current_bubble_radius s"

definition get_peak_temperature :: "Simulator \<Rightarrow> real" where
  "get_peak_temperature s = current_peak_temperature s"

definition get_light_intensity :: "Simulator \<Rightarrow> real" where
  "get_light_intensity s = current_light_intensity s"

subsection \<open>Notions used to state the properties\<close>

text \<open>
  The values of the locals \<^verbatim>\<open>period\<close> and \<^verbatim>\<open>t_in_period\<close> that \<^verbatim>\<open>simulate_step\<close>
  computes when it is called in state \<open>m\<close>: the elapsed time has been advanced by
  \<open>1/60\<close> before the remainder is taken.
\<close>

definition period_of :: "SonolumiPhysics \<Rightarrow> real" where
  "period_of m = 1 / m_frequency_hz m"

definition t_in_period_of :: "SonolumiPhysics \<Rightarrow> real" where
  "t_in_period_of m = fmod (m_time m + 1 / 60) (period_of m)"

text \<open>
  The radius that the collapse branch assigns, and the condition under which the step
  reaches the inner branch that heats the bubble and emits light.
\<close>

definition collapse_radius_of :: "SonolumiPhysics \<Rightarrow> real" where
  "collapse_radius_of m =
     m_ambient_radius_mm m *
       (1 - 0.5 * sin ((t_in_period_of m - period_of m * 0.9) / (period_of m * 0.1) * pi))"

definition severe_collapse :: "SonolumiPhysics \<Rightarrow> bool" where
  "severe_collapse m \<longleftrightarrow>
     \<not> t_in_period_of m < period_of m * 0.9 \<and>
     collapse_radius_of m < m_ambient_radius_mm m * 0.5"

text \<open>
  The operation \<open>configure\<close> of the model: the class has no such member, it is the
  sequence of five setter calls that \<^verbatim>\<open>Simulator::set_parameters\<close> performs.
\<close>

definition configure ::
  "real \<Rightarrow> real \<Rightarrow> real \<Rightarrow> string \<Rightarrow> string \<Rightarrow> SonolumiPhysics \<Rightarrow> SonolumiPhysics" where
  "configure frequency_hz pressure_atm ambient_radius_mm gas_label liquid_label m =
     set_liquid_type liquid_label (set_gas_type gas_label
       (set_ambient_radius ambient_radius_mm
         (set_pressure pressure_atm (set_frequency frequency_hz m))))"

text \<open>
  The emission model in the words of the specification: 0 below 1000, an exponential
  ramp from there on.
\<close>

definition emission :: "real \<Rightarrow> real" where
  "emission T = (if T < 1000 then 0 else exp ((T - 1000) / 10000))"

text \<open>
  The states of the model that a run reaches when every configuration it applies has a
  positive frequency and a positive ambient radius: the model is constructed and
  configured, then stepped and reconfigured in any order.
\<close>

inductive reachable :: "SonolumiPhysics \<Rightarrow> bool" where
  init: "0 < f \<Longrightarrow> 0 < a \<Longrightarrow> reachable (configure f p a g l SonolumiPhysics_init)"
| conf: "reachable m \<Longrightarrow> 0 < f \<Longrightarrow> 0 < a \<Longrightarrow> reachable (configure f p a g l m)"
| step: "reachable m \<Longrightarrow> reachable (simulate_step m)"

text \<open>A run of consecutive steps that all take the expansion branch.\<close>

fun expansion_run :: "nat \<Rightarrow> SonolumiPhysics \<Rightarrow> bool" where
  "expansion_run 0 m = True"
| "expansion_run (Suc n) m =
     (t_in_period_of m < 0.9 * period_of m \<and> expansion_run n (simulate_step m))"

text \<open>What a caller reads from the facade, and the facade with other labels.\<close>

definition outputs :: "Simulator \<Rightarrow> real \<times> real \<times> real" where
  "outputs s = (get_bubble_radius s, get_peak_temperature s, get_light_intensity s)"

definition relabel :: "string \<Rightarrow> string \<Rightarrow> Simulator \<Rightarrow> Simulator" where
  "relabel g l s = s\<lparr>physics := (physics s)\<lparr>m_gas_type := g, m_liquid_type := l\<rparr>\<rparr>"

section \<open>Properties of one step\<close>

lemmas setter_defs =
  set_frequency_def set_pressure_def set_ambient_radius_def set_gas_type_def
  set_liquid_type_def

lemmas getter_defs = get_radius_def get_max_temperature_def get_emitted_light_def

lemmas facade_getter_defs =
  get_bubble_radius_def get_peak_temperature_def get_light_intensity_def

lemma physics_set_parameters:
  "physics (set_parameters f p r g l s) = configure f p r g l (physics s)"
  by (simp add: set_parameters_def configure_def Let_def)

lemma physics_step: "physics (step s) = simulate_step (physics s)"
  by (simp add: step_def Let_def)

text \<open>The three branches of the step, each as one record update.\<close>

lemma simulate_step_expansion:
  assumes "t_in_period_of m < period_of m * 0.9"
  shows "simulate_step m =
     m\<lparr>m_time := m_time m + 1 / 60,
       m_current_radius :=
         m_ambient_radius_mm m * (1 + 1 * sin (t_in_period_of m / period_of m * pi)),
       m_max_temperature := 0\<rparr>"
  using assms by (simp add: simulate_step_def t_in_period_of_def period_of_def Let_def)

lemma simulate_step_severe:
  assumes "severe_collapse m"
  shows "simulate_step m =
     m\<lparr>m_time := m_time m + 1 / 60,
       m_current_radius := collapse_radius_of m,
       m_max_temperature := 50000 * (m_ambient_radius_mm m * 0.5 / collapse_radius_of m),
       m_light_intensity :=
         model_thermal_emission
           (50000 * (m_ambient_radius_mm m * 0.5 / collapse_radius_of m))\<rparr>"
  using assms
  by (simp add: simulate_step_def severe_collapse_def collapse_radius_of_def
      t_in_period_of_def period_of_def Let_def)

lemma simulate_step_mild:
  assumes "\<not> t_in_period_of m < period_of m * 0.9" and "\<not> severe_collapse m"
  shows "simulate_step m =
     m\<lparr>m_time := m_time m + 1 / 60,
       m_current_radius := collapse_radius_of m,
       m_max_temperature := 0,
       m_light_intensity := 0\<rparr>"
  using assms
  by (simp add: simulate_step_def severe_collapse_def collapse_radius_of_def
      t_in_period_of_def period_of_def Let_def)

lemma simulate_step_time: "m_time (simulate_step m) = m_time m + 1 / 60"
  by (simp add: simulate_step_def Let_def)

lemma simulate_step_params:
  "m_frequency_hz (simulate_step m) = m_frequency_hz m"
  "m_pressure_atm (simulate_step m) = m_pressure_atm m"
  "m_ambient_radius_mm (simulate_step m) = m_ambient_radius_mm m"
  "m_gas_type (simulate_step m) = m_gas_type m"
  "m_liquid_type (simulate_step m) = m_liquid_type m"
  by (simp_all add: simulate_step_def Let_def)

lemma configure_fields:
  "m_frequency_hz (configure f p a g l m) = f"
  "m_pressure_atm (configure f p a g l m) = p"
  "m_ambient_radius_mm (configure f p a g l m) = a"
  "m_gas_type (configure f p a g l m) = g"
  "m_liquid_type (configure f p a g l m) = l"
  "m_time (configure f p a g l m) = m_time m"
  "m_current_radius (configure f p a g l m) = a"
  "m_max_temperature (configure f p a g l m) = m_max_temperature m"
  "m_light_intensity (configure f p a g l m) = m_light_intensity m"
  by (simp_all add: configure_def setter_defs)

text \<open>The sine is at most 1, so the collapse radius is at least half the ambient radius.\<close>

lemma half_le_collapse_factor:
  fixes a x :: real
  assumes "0 \<le> a"
  shows "a * 0.5 \<le> a * (1 - 0.5 * sin x)"
proof -
  have "sin x \<le> 1" by (rule sin_le_one)
  then have "(0.5::real) \<le> 1 - 0.5 * sin x" by simp
  then show ?thesis using assms by (rule mult_left_mono)
qed

lemma not_severe_collapse:
  assumes "0 \<le> m_ambient_radius_mm m"
  shows "\<not> severe_collapse m"
  using half_le_collapse_factor [OF assms]
  by (simp add: severe_collapse_def collapse_radius_of_def not_less)

lemma simulate_step_dark:
  assumes "0 \<le> m_ambient_radius_mm m" and "m_light_intensity m = 0"
  shows "m_max_temperature (simulate_step m) = 0 \<and> m_light_intensity (simulate_step m) = 0"
proof (cases "t_in_period_of m < period_of m * 0.9")
  case True
  then show ?thesis using assms(2) by (simp add: simulate_step_expansion)
next
  case False
  then show ?thesis
    using not_severe_collapse [OF assms(1)] by (simp add: simulate_step_mild)
qed

lemma reachable_inv:
  assumes "reachable m"
  shows "0 < m_frequency_hz m \<and> 0 < m_ambient_radius_mm m \<and>
         m_max_temperature m = 0 \<and> m_light_intensity m = 0"
  using assms
proof (induction rule: reachable.induct)
  case (init f a p g l)
  then show ?case by (simp add: configure_fields SonolumiPhysics_init_def)
next
  case (conf m f a p g l)
  then show ?case by (simp add: configure_fields)
next
  case (step m)
  then show ?case using simulate_step_dark [of m] by (simp add: simulate_step_params)
qed

lemma funpow_reachable:
  assumes "reachable m"
  shows "reachable ((simulate_step ^^ n) m)"
  using assms by (induction n) (simp_all add: reachable.step)

text \<open>Concrete values of the remainder, for the examples below.\<close>

lemma fmod_examples:
  "fmod (1 / 60) (1 / 20000) = 1 / 60000"
  "fmod (1 / 60) (1 / 55) = 1 / 60"
  "fmod (1 / 60) (1 / 60) = 0"
  "fmod (1 / 30) 1 = 1 / 30"
  by (simp_all add: fmod_def trunc_def)

text \<open>
  For a time that is not negative and a positive period, the truncated remainder is
  the usual one: it lies in \<open>[0, y)\<close> and differs from \<open>x\<close> by a whole number of periods.
\<close>

lemma fmod_nonneg:
  assumes "0 \<le> x" and "0 < y"
  shows "fmod x y = x - of_int \<lfloor>x / y\<rfloor> * y \<and> 0 \<le> fmod x y \<and> fmod x y < y"
proof -
  have q: "0 \<le> x / y" using assms by simp
  then have eq: "fmod x y = x - of_int \<lfloor>x / y\<rfloor> * y" by (simp add: fmod_def trunc_def)
  have "of_int \<lfloor>x / y\<rfloor> \<le> x / y" by (rule of_int_floor_le)
  then have lo: "of_int \<lfloor>x / y\<rfloor> * y \<le> x"
    by (simp only: pos_le_divide_eq [OF assms(2)])
  have "x / y < of_int \<lfloor>x / y\<rfloor> + 1" by linarith
  then have "x < (of_int \<lfloor>x / y\<rfloor> + 1) * y"
    by (simp only: pos_divide_less_eq [OF assms(2)])
  then have hi: "x - of_int \<lfloor>x / y\<rfloor> * y < y" by (simp add: algebra_simps)
  show ?thesis using eq lo hi by simp
qed

lemma model_thermal_emission_eq: "model_thermal_emission T = emission T"
  by (simp add: model_thermal_emission_def emission_def)

lemma init_fields:
  "m_time SonolumiPhysics_init = 0"
  "m_max_temperature SonolumiPhysics_init = 0"
  "m_light_intensity SonolumiPhysics_init = 0"
  by (simp_all add: SonolumiPhysics_init_def)

text \<open>Steps that the examples use.\<close>

lemma default_state_reachable:
  "reachable (configure 20000 1.35 0.005 ''Argon'' ''Water'' SonolumiPhysics_init)"
  by (rule reachable.init) simp_all

lemma negative_radius_step:
  "simulate_step (configure 55 1.35 (- 1) ''Argon'' ''Water'' SonolumiPhysics_init) =
     (configure 55 1.35 (- 1) ''Argon'' ''Water'' SonolumiPhysics_init)
       \<lparr>m_time := 1 / 60, m_current_radius := - 3 / 4,
        m_max_temperature := 100000 / 3, m_light_intensity := exp (97 / 30)\<rparr>"
proof -
  let ?m = "configure 55 1.35 (- 1) ''Argon'' ''Water'' SonolumiPhysics_init"
  have t: "t_in_period_of ?m = 1 / 60 \<and> period_of ?m = 1 / 55"
    by (simp add: t_in_period_of_def period_of_def configure_fields init_fields fmod_examples)
  have r: "collapse_radius_of ?m = - 3 / 4"
    unfolding collapse_radius_of_def conjunct1 [OF t] conjunct2 [OF t]
    by (simp add: configure_fields sin_30)
  have s: "severe_collapse ?m"
    unfolding severe_collapse_def r conjunct1 [OF t] conjunct2 [OF t]
    by (simp add: configure_fields)
  show ?thesis
    unfolding simulate_step_severe [OF s] r
    by (simp add: configure_fields init_fields model_thermal_emission_def)
qed

lemma configure_configure:
  "configure f p a g l (configure f' p' a' g' l' m) = configure f p a g l m"
  by (simp add: configure_def setter_defs)

lemma physics_Simulator_init:
  "physics Simulator_init =
     configure 20000 1.35 0.005 ''Argon'' ''Water'' SonolumiPhysics_init"
  by (simp add: Simulator_init_def physics_set_parameters)

text \<open>
  The state that the examples of stale light start from: a model that took the heating
  branch under ambient radius \<open>-1\<close> at 55 Hz and was then configured with frequency 1
  and ambient radius 1. Its next step is an expansion step.
\<close>

lemma stale_light_state:
  "m_frequency_hz (configure 1 1 1 ''Argon'' ''Water''
     (simulate_step (configure 55 1.35 (- 1) ''Argon'' ''Water'' SonolumiPhysics_init))) = 1"
  "m_ambient_radius_mm (configure 1 1 1 ''Argon'' ''Water''
     (simulate_step (configure 55 1.35 (- 1) ''Argon'' ''Water'' SonolumiPhysics_init))) = 1"
  "period_of (configure 1 1 1 ''Argon'' ''Water''
     (simulate_step (configure 55 1.35 (- 1) ''Argon'' ''Water'' SonolumiPhysics_init))) = 1"
  "t_in_period_of (configure 1 1 1 ''Argon'' ''Water''
     (simulate_step (configure 55 1.35 (- 1) ''Argon'' ''Water'' SonolumiPhysics_init)))
     = 1 / 30"
  "m_light_intensity (configure 1 1 1 ''Argon'' ''Water''
     (simulate_step (configure 55 1.35 (- 1) ''Argon'' ''Water'' SonolumiPhysics_init)))
     = exp (97 / 30)"
proof -
  let ?m = "configure 1 1 1 ''Argon'' ''Water''
     (simulate_step (configure 55 1.35 (- 1) ''Argon'' ''Water'' SonolumiPhysics_init))"
  show f: "m_frequency_hz ?m = 1" and "m_ambient_radius_mm ?m = 1"
    by (simp_all add: configure_fields)
  have t: "m_time ?m = 1 / 60"
    by (simp add: configure_fields simulate_step_time init_fields)
  show "period_of ?m = 1" unfolding period_of_def f by simp
  show "t_in_period_of ?m = 1 / 30"
    unfolding t_in_period_of_def period_of_def t f by (simp add: fmod_def trunc_def)
  show "m_light_intensity ?m = exp (97 / 30)"
    unfolding negative_radius_step by (simp add: configure_fields)
qed

lemma stale_light_step:
  "simulate_step (configure 1 1 1 ''Argon'' ''Water''
     (simulate_step (configure 55 1.35 (- 1) ''Argon'' ''Water'' SonolumiPhysics_init))) =
   (configure 1 1 1 ''Argon'' ''Water''
     (simulate_step (configure 55 1.35 (- 1) ''Argon'' ''Water'' SonolumiPhysics_init)))
     \<lparr>m_time := 1 / 30, m_current_radius := 1 + sin (pi / 30), m_max_temperature := 0\<rparr>"
proof -
  let ?m = "configure 1 1 1 ''Argon'' ''Water''
     (simulate_step (configure 55 1.35 (- 1) ''Argon'' ''Water'' SonolumiPhysics_init))"
  have e: "t_in_period_of ?m < period_of ?m * 0.9"
    unfolding stale_light_state by simp
  have t: "m_time ?m = 1 / 60"
    by (simp add: configure_fields simulate_step_time init_fields)
  show ?thesis
    unfolding simulate_step_expansion [OF e] stale_light_state t by simp
qed

lemma expansion_run_light:
  "expansion_run n m \<Longrightarrow>
   m_light_intensity ((simulate_step ^^ n) m) = m_light_intensity m"
proof (induction n arbitrary: m)
  case 0
  then show ?case by simp
next
  case (Suc n)
  then have e: "t_in_period_of m < period_of m * 0.9"
    and r: "expansion_run n (simulate_step m)"
    by (simp_all add: mult.commute)
  have "m_light_intensity ((simulate_step ^^ n) (simulate_step m)) =
        m_light_intensity (simulate_step m)"
    by (rule Suc.IH [OF r])
  also have "\<dots> = m_light_intensity m" by (simp add: simulate_step_expansion [OF e])
  finally show ?case by (simp add: funpow_swap1)
qed

lemma simulate_step_ignores_temperature:
  "simulate_step (m\<lparr>m_max_temperature := x\<rparr>) = simulate_step m"
  by (simp add: simulate_step_def Let_def)

lemma configure_agree:
  fixes m1 m2 :: SonolumiPhysics
  assumes "m_time m1 = m_time m2" and "m_light_intensity m1 = m_light_intensity m2"
  shows "configure f p r g l m2 =
         (configure f p r g l m1)\<lparr>m_max_temperature := m_max_temperature m2\<rparr>"
  using assms by (simp add: configure_def setter_defs)

lemma step_set_parameters_agree:
  fixes s1 s2 :: Simulator
  assumes "m_time (physics s1) = m_time (physics s2)"
    and "m_light_intensity (physics s1) = m_light_intensity (physics s2)"
  shows "step (set_parameters f p r g l s1) = step (set_parameters f p r g l s2)"
proof -
  have "simulate_step (configure f p r g l (physics s2)) =
        simulate_step (configure f p r g l (physics s1))"
    unfolding configure_agree [OF assms] by (rule simulate_step_ignores_temperature)
  then show ?thesis
    by (simp add: step_def Let_def physics_set_parameters)
qed

lemma simulate_step_labels:
  "simulate_step (m\<lparr>m_gas_type := g, m_liquid_type := l\<rparr>) =
   (simulate_step m)\<lparr>m_gas_type := g, m_liquid_type := l\<rparr>"
  by (simp add: simulate_step_def Let_def)

lemma step_relabel: "step (relabel g l s) = relabel g l (step s)"
  by (simp add: step_def relabel_def Let_def simulate_step_labels getter_defs)

lemma funpow_step_relabel: "(step ^^ n) (relabel g l s) = relabel g l ((step ^^ n) s)"
  by (induction n) (simp_all add: step_relabel)

lemma set_parameters_relabel:
  "set_parameters f p r g2 l2 s = relabel g2 l2 (set_parameters f p r g1 l1 s)"
  by (simp add: set_parameters_def relabel_def Let_def setter_defs)

lemma relabel_reads:
  "outputs (relabel g l s) = outputs s"
  "get_radius (physics (relabel g l s)) = get_radius (physics s)"
  "get_max_temperature (physics (relabel g l s)) = get_max_temperature (physics s)"
  "get_emitted_light (physics (relabel g l s)) = get_emitted_light (physics s)"
  by (simp_all add: relabel_def outputs_def facade_getter_defs getter_defs)

section \<open>The claims\<close>

text \<open>
  C1. The claim: with a positive frequency and a positive ambient radius, after a step
  in the expansion phase (\<open>t_in_period < 0.9 * period\<close>) both the peak temperature and
  the emitted light are 0. The expansion branch assigns the temperature and never the
  light, while the other branch that ends without heating assigns both. In the state
  below the configuration is frequency 1 and ambient radius 1, the step is an expansion
  step, the temperature after it is 0 and the emitted light is still \<open>exp (97/30)\<close>,
  the value of the earlier collapse step.
\<close>

theorem C1_expansion_step_keeps_stale_light:
  "0 < m_frequency_hz (configure 1 1 1 ''Argon'' ''Water''
     (simulate_step (configure 55 1.35 (- 1) ''Argon'' ''Water'' SonolumiPhysics_init))) \<and>
   0 < m_ambient_radius_mm (configure 1 1 1 ''Argon'' ''Water''
     (simulate_step (configure 55 1.35 (- 1) ''Argon'' ''Water'' SonolumiPhysics_init))) \<and>
   t_in_period_of (configure 1 1 1 ''Argon'' ''Water''
     (simulate_step (configure 55 1.35 (- 1) ''Argon'' ''Water'' SonolumiPhysics_init)))
     < 0.9 * period_of (configure 1 1 1 ''Argon'' ''Water''
     (simulate_step (configure 55 1.35 (- 1) ''Argon'' ''Water'' SonolumiPhysics_init))) \<and>
   get_max_temperature (simulate_step (configure 1 1 1 ''Argon'' ''Water''
     (simulate_step (configure 55 1.35 (- 1) ''Argon'' ''Water'' SonolumiPhysics_init)))) = 0 \<and>
   get_emitted_light (simulate_step (configure 1 1 1 ''Argon'' ''Water''
     (simulate_step (configure 55 1.35 (- 1) ''Argon'' ''Water'' SonolumiPhysics_init))))
     = exp (97 / 30) \<and>
   get_emitted_light (simulate_step (configure 1 1 1 ''Argon'' ''Water''
     (simulate_step (configure 55 1.35 (- 1) ''Argon'' ''Water'' SonolumiPhysics_init)))) \<noteq> 0"
  unfolding stale_light_step getter_defs
  using stale_light_state by simp

text \<open>
  C2. With a positive frequency and a positive ambient radius, the radius computed by
  the collapse branch is at least half the ambient radius whatever the elapsed time,
  so the branch guarded by \<open>current_radius < 0.5 * ambient_radius\<close> is never taken;
  hence after any number of steps from a freshly constructed and configured model the
  peak temperature and the emitted light are 0.
\<close>

theorem C2_severe_collapse_never_runs:
  assumes "0 < f" and "0 < a"
  shows "(\<forall>m. m_frequency_hz m = f \<and> m_ambient_radius_mm m = a \<longrightarrow>
            0.5 * a \<le> collapse_radius_of m \<and> \<not> severe_collapse m) \<and>
         (\<forall>n. get_max_temperature
                 ((simulate_step ^^ n) (configure f p a g l SonolumiPhysics_init)) = 0 \<and>
               get_emitted_light
                 ((simulate_step ^^ n) (configure f p a g l SonolumiPhysics_init)) = 0)"
proof (intro conjI allI impI)
  fix m :: SonolumiPhysics
  assume m: "m_frequency_hz m = f \<and> m_ambient_radius_mm m = a"
  then have a: "0 \<le> m_ambient_radius_mm m" using assms(2) by simp
  show "0.5 * a \<le> collapse_radius_of m"
    using half_le_collapse_factor [OF a] m by (simp add: collapse_radius_of_def mult.commute)
  show "\<not> severe_collapse m" by (rule not_severe_collapse [OF a])
next
  fix n
  have "reachable ((simulate_step ^^ n) (configure f p a g l SonolumiPhysics_init))"
    by (rule funpow_reachable) (rule reachable.init [OF assms])
  from reachable_inv [OF this]
  show "get_max_temperature
          ((simulate_step ^^ n) (configure f p a g l SonolumiPhysics_init)) = 0"
    and "get_emitted_light
          ((simulate_step ^^ n) (configure f p a g l SonolumiPhysics_init)) = 0"
    by (simp_all add: getter_defs)
qed

theorem C2_severe_collapse_never_runs_witness:
  "(0::real) < 20000 \<and> (0::real) < 0.005 \<and>
   \<not> severe_collapse (configure 20000 1.35 0.005 ''Argon'' ''Water'' SonolumiPhysics_init) \<and>
   get_max_temperature
     ((simulate_step ^^ 3) (configure 20000 1.35 0.005 ''Argon'' ''Water'' SonolumiPhysics_init)) = 0 \<and>
   get_emitted_light
     ((simulate_step ^^ 3) (configure 20000 1.35 0.005 ''Argon'' ''Water'' SonolumiPhysics_init)) = 0"
proof -
  have f: "(0::real) < 20000" and a: "(0::real) < 0.005" by simp_all
  note th = C2_severe_collapse_never_runs [OF f a, of "1.35" "''Argon''" "''Water''"]
  from th have "\<not> severe_collapse (configure 20000 1.35 0.005 ''Argon'' ''Water'' SonolumiPhysics_init)"
    by (simp add: configure_fields)
  moreover from th have
    "get_max_temperature
       ((simulate_step ^^ 3) (configure 20000 1.35 0.005 ''Argon'' ''Water'' SonolumiPhysics_init)) = 0 \<and>
     get_emitted_light
       ((simulate_step ^^ 3) (configure 20000 1.35 0.005 ''Argon'' ''Water'' SonolumiPhysics_init)) = 0"
    by blast
  ultimately show ?thesis using f a by blast
qed

text \<open>
  C3, as amended. Configuring the model sets its radius to the new ambient radius and
  leaves its peak temperature and emitted light as they were: they are 0 after the
  call when they were 0 before it, as in every state of a run with positive
  frequencies and ambient radii. What \<^verbatim>\<open>set_parameters\<close> resets to 0 is the facade's
  own copy of the two values.
\<close>

theorem C3_configure_keeps_temperature_and_light:
  "get_radius (configure f p a g l m) = a \<and>
   get_max_temperature (configure f p a g l m) = get_max_temperature m \<and>
   get_emitted_light (configure f p a g l m) = get_emitted_light m \<and>
   (reachable m \<longrightarrow>
      get_max_temperature (configure f p a g l m) = 0 \<and>
      get_emitted_light (configure f p a g l m) = 0) \<and>
   get_radius (physics (set_parameters f p a g l s)) = a \<and>
   get_bubble_radius (set_parameters f p a g l s) = a \<and>
   get_peak_temperature (set_parameters f p a g l s) = 0 \<and>
   get_light_intensity (set_parameters f p a g l s) = 0"
proof -
  have "reachable m \<longrightarrow> m_max_temperature m = 0 \<and> m_light_intensity m = 0"
    using reachable_inv [of m] by simp
  then show ?thesis
    by (simp add: getter_defs facade_getter_defs configure_fields physics_set_parameters)
      (simp add: set_parameters_def Let_def)
qed

theorem C3_configure_keeps_temperature_and_light_witness:
  "reachable (simulate_step (configure 20000 1.35 0.005 ''Argon'' ''Water'' SonolumiPhysics_init)) \<and>
   get_radius (configure 30000 1 0.01 ''Xenon'' ''Water''
     (simulate_step (configure 20000 1.35 0.005 ''Argon'' ''Water'' SonolumiPhysics_init))) = 0.01 \<and>
   get_max_temperature (configure 30000 1 0.01 ''Xenon'' ''Water''
     (simulate_step (configure 20000 1.35 0.005 ''Argon'' ''Water'' SonolumiPhysics_init))) = 0 \<and>
   get_emitted_light (configure 30000 1 0.01 ''Xenon'' ''Water''
     (simulate_step (configure 20000 1.35 0.005 ''Argon'' ''Water'' SonolumiPhysics_init))) = 0"
proof -
  have r: "reachable
      (simulate_step (configure 20000 1.35 0.005 ''Argon'' ''Water'' SonolumiPhysics_init))"
    by (rule reachable.step [OF default_state_reachable])
  show ?thesis
    using r C3_configure_keeps_temperature_and_light
      [of 30000 1 "0.01" "''Xenon''" "''Water''"
          "simulate_step (configure 20000 1.35 0.005 ''Argon'' ''Water'' SonolumiPhysics_init)"]
    by blast
qed

text \<open>
  C3, as stated, fails: a model configured with ambient radius \<open>-1\<close> at 55 Hz takes the
  heating branch in its first step (peak temperature \<open>100000/3\<close>); configuring it
  afterwards with the defaults leaves that temperature in place.
\<close>

theorem C3_counterexample:
  "(0::real) < 20000 \<and> (0::real) < 0.005 \<and>
   get_max_temperature (configure 20000 1.35 0.005 ''Argon'' ''Water''
     (simulate_step (configure 55 1.35 (- 1) ''Argon'' ''Water'' SonolumiPhysics_init)))
     = 100000 / 3 \<and>
   \<not> (get_radius (configure 20000 1.35 0.005 ''Argon'' ''Water''
          (simulate_step (configure 55 1.35 (- 1) ''Argon'' ''Water'' SonolumiPhysics_init)))
          = 0.005 \<and>
        get_max_temperature (configure 20000 1.35 0.005 ''Argon'' ''Water''
          (simulate_step (configure 55 1.35 (- 1) ''Argon'' ''Water'' SonolumiPhysics_init)))
          = 0 \<and>
        get_emitted_light (configure 20000 1.35 0.005 ''Argon'' ''Water''
          (simulate_step (configure 55 1.35 (- 1) ''Argon'' ''Water'' SonolumiPhysics_init)))
          = 0)"
  unfolding negative_radius_step
  by (simp add: getter_defs configure_fields)

text \<open>
  C4. With a positive frequency, one step computes \<open>period = 1 / frequency\<close> and
  \<open>t_in_period\<close>, the remainder of the advanced time by the period, and sets the radius
  by the expansion formula when \<open>t_in_period < 0.9 * period\<close> and by the collapse
  formula otherwise; in the collapse case a radius below half the ambient radius gives
  the peak temperature \<open>50000 * ((0.5 * ambient) / radius)\<close> and the light
  \<open>emission\<close> of it, and any other radius gives 0 for both.
\<close>

theorem C4_step_formulas:
  assumes "0 < m_frequency_hz m"
  shows "period_of m = 1 / m_frequency_hz m \<and>
         t_in_period_of m = fmod (m_time m + 1 / 60) (period_of m) \<and>
         (t_in_period_of m < 0.9 * period_of m \<longrightarrow>
            get_radius (simulate_step m) =
              m_ambient_radius_mm m * (1 + sin (pi * t_in_period_of m / period_of m))) \<and>
         (\<not> t_in_period_of m < 0.9 * period_of m \<longrightarrow>
            get_radius (simulate_step m) =
              m_ambient_radius_mm m *
                (1 - 0.5 * sin (pi * (t_in_period_of m - 0.9 * period_of m)
                                  / (0.1 * period_of m))) \<and>
            (get_radius (simulate_step m) < 0.5 * m_ambient_radius_mm m \<longrightarrow>
               get_max_temperature (simulate_step m) =
                 50000 * ((0.5 * m_ambient_radius_mm m) / get_radius (simulate_step m)) \<and>
               get_emitted_light (simulate_step m) =
                 emission (get_max_temperature (simulate_step m))) \<and>
            (\<not> get_radius (simulate_step m) < 0.5 * m_ambient_radius_mm m \<longrightarrow>
               get_max_temperature (simulate_step m) = 0 \<and>
               get_emitted_light (simulate_step m) = 0))"
proof (intro conjI impI)
  show "period_of m = 1 / m_frequency_hz m" by (simp add: period_of_def)
  show "t_in_period_of m = fmod (m_time m + 1 / 60) (period_of m)"
    by (simp add: t_in_period_of_def)
next
  assume "t_in_period_of m < 0.9 * period_of m"
  then have e: "t_in_period_of m < period_of m * 0.9" by (simp add: mult.commute)
  show "get_radius (simulate_step m) =
          m_ambient_radius_mm m * (1 + sin (pi * t_in_period_of m / period_of m))"
    by (simp add: simulate_step_expansion [OF e] getter_defs mult.commute)
next
  assume "\<not> t_in_period_of m < 0.9 * period_of m"
  then have c: "\<not> t_in_period_of m < period_of m * 0.9" by (simp add: mult.commute)
  have r: "get_radius (simulate_step m) = collapse_radius_of m"
    using c by (cases "severe_collapse m")
      (simp_all add: simulate_step_severe simulate_step_mild getter_defs)
  have arg: "(t_in_period_of m - period_of m * 0.9) / (period_of m * 0.1) * pi =
             pi * (t_in_period_of m - 0.9 * period_of m) / (0.1 * period_of m)"
    by (simp add: mult.commute)
  show "get_radius (simulate_step m) =
          m_ambient_radius_mm m *
            (1 - 0.5 * sin (pi * (t_in_period_of m - 0.9 * period_of m)
                              / (0.1 * period_of m)))"
    unfolding r collapse_radius_of_def arg by simp
  {
    assume "get_radius (simulate_step m) < 0.5 * m_ambient_radius_mm m"
    then have s: "severe_collapse m"
      using c by (simp add: r severe_collapse_def mult.commute)
    show "get_max_temperature (simulate_step m) =
            50000 * ((0.5 * m_ambient_radius_mm m) / get_radius (simulate_step m))"
      by (simp add: simulate_step_severe [OF s] getter_defs mult.commute)
    show "get_emitted_light (simulate_step m) =
            emission (get_max_temperature (simulate_step m))"
      by (simp add: simulate_step_severe [OF s] getter_defs model_thermal_emission_eq)
  }
  {
    assume "\<not> get_radius (simulate_step m) < 0.5 * m_ambient_radius_mm m"
    then have s: "\<not> severe_collapse m"
      by (simp add: r severe_collapse_def mult.commute)
    show "get_max_temperature (simulate_step m) = 0"
      by (simp add: simulate_step_mild [OF c s] getter_defs)
    show "get_emitted_light (simulate_step m) = 0"
      by (simp add: simulate_step_mild [OF c s] getter_defs)
  }
qed

theorem C4_step_formulas_witness:
  "0 < m_frequency_hz (configure 60 1 2 ''Argon'' ''Water'' SonolumiPhysics_init) \<and>
   t_in_period_of (configure 60 1 2 ''Argon'' ''Water'' SonolumiPhysics_init)
     < 0.9 * period_of (configure 60 1 2 ''Argon'' ''Water'' SonolumiPhysics_init) \<and>
   get_radius (simulate_step (configure 60 1 2 ''Argon'' ''Water'' SonolumiPhysics_init)) = 2 \<and>
   0 < m_frequency_hz (configure 55 1 (- 1) ''Argon'' ''Water'' SonolumiPhysics_init) \<and>
   \<not> t_in_period_of (configure 55 1 (- 1) ''Argon'' ''Water'' SonolumiPhysics_init)
     < 0.9 * period_of (configure 55 1 (- 1) ''Argon'' ''Water'' SonolumiPhysics_init) \<and>
   get_radius (simulate_step (configure 55 1 (- 1) ''Argon'' ''Water'' SonolumiPhysics_init))
     = - 3 / 4 \<and>
   get_max_temperature
     (simulate_step (configure 55 1 (- 1) ''Argon'' ''Water'' SonolumiPhysics_init))
     = 100000 / 3 \<and>
   get_emitted_light
     (simulate_step (configure 55 1 (- 1) ''Argon'' ''Water'' SonolumiPhysics_init))
     = emission (100000 / 3) \<and>
   0 < m_frequency_hz (configure 55 1 1 ''Argon'' ''Water'' SonolumiPhysics_init) \<and>
   \<not> t_in_period_of (configure 55 1 1 ''Argon'' ''Water'' SonolumiPhysics_init)
     < 0.9 * period_of (configure 55 1 1 ''Argon'' ''Water'' SonolumiPhysics_init) \<and>
   get_radius (simulate_step (configure 55 1 1 ''Argon'' ''Water'' SonolumiPhysics_init))
     = 3 / 4 \<and>
   get_max_temperature
     (simulate_step (configure 55 1 1 ''Argon'' ''Water'' SonolumiPhysics_init)) = 0 \<and>
   get_emitted_light
     (simulate_step (configure 55 1 1 ''Argon'' ''Water'' SonolumiPhysics_init)) = 0"
proof -
  let ?e = "configure 60 1 2 ''Argon'' ''Water'' SonolumiPhysics_init"
  let ?s = "configure 55 1 (- 1) ''Argon'' ''Water'' SonolumiPhysics_init"
  let ?d = "configure 55 1 1 ''Argon'' ''Water'' SonolumiPhysics_init"
  have fe: "0 < m_frequency_hz ?e" and fs: "0 < m_frequency_hz ?s"
    by (simp_all add: configure_fields)
  have te: "t_in_period_of ?e = 0" and pe: "period_of ?e = 1 / 60"
    by (simp_all add: t_in_period_of_def period_of_def configure_fields init_fields
        fmod_examples)
  have ts: "t_in_period_of ?s = 1 / 60" and ps: "period_of ?s = 1 / 55"
    by (simp_all add: t_in_period_of_def period_of_def configure_fields init_fields
        fmod_examples)
  have ae: "m_ambient_radius_mm ?e = 2" and as: "m_ambient_radius_mm ?s = - 1"
    by (simp_all add: configure_fields)
  have ee: "t_in_period_of ?e < 0.9 * period_of ?e" by (simp add: te pe)
  have cs: "\<not> t_in_period_of ?s < 0.9 * period_of ?s" by (simp add: ts ps)
  from C4_step_formulas [OF fe] ee
  have "get_radius (simulate_step ?e) =
          m_ambient_radius_mm ?e * (1 + sin (pi * t_in_period_of ?e / period_of ?e))"
    by blast
  then have re: "get_radius (simulate_step ?e) = 2" unfolding te pe ae by simp
  from C4_step_formulas [OF fs] cs
  have A: "get_radius (simulate_step ?s) =
             m_ambient_radius_mm ?s *
               (1 - 0.5 * sin (pi * (t_in_period_of ?s - 0.9 * period_of ?s)
                                 / (0.1 * period_of ?s)))"
    and B: "get_radius (simulate_step ?s) < 0.5 * m_ambient_radius_mm ?s \<longrightarrow>
             get_max_temperature (simulate_step ?s) =
               50000 * ((0.5 * m_ambient_radius_mm ?s) / get_radius (simulate_step ?s)) \<and>
             get_emitted_light (simulate_step ?s) =
               emission (get_max_temperature (simulate_step ?s))"
    by blast+
  from A have rs: "get_radius (simulate_step ?s) = - 3 / 4"
    unfolding ts ps as by (simp add: sin_30)
  have "get_radius (simulate_step ?s) < 0.5 * m_ambient_radius_mm ?s"
    unfolding rs as by simp
  with B have T: "get_max_temperature (simulate_step ?s) =
               50000 * ((0.5 * m_ambient_radius_mm ?s) / get_radius (simulate_step ?s))"
    and L: "get_emitted_light (simulate_step ?s) =
               emission (get_max_temperature (simulate_step ?s))"
    by blast+
  from T have T': "get_max_temperature (simulate_step ?s) = 100000 / 3"
    unfolding rs as by simp
  from L have L': "get_emitted_light (simulate_step ?s) = emission (100000 / 3)"
    unfolding T' .
  have fd: "0 < m_frequency_hz ?d" and ad: "m_ambient_radius_mm ?d = 1"
    by (simp_all add: configure_fields)
  have td: "t_in_period_of ?d = 1 / 60" and pd: "period_of ?d = 1 / 55"
    by (simp_all add: t_in_period_of_def period_of_def configure_fields init_fields
        fmod_examples)
  have cd: "\<not> t_in_period_of ?d < 0.9 * period_of ?d" by (simp add: td pd)
  from C4_step_formulas [OF fd] cd
  have C: "get_radius (simulate_step ?d) =
             m_ambient_radius_mm ?d *
               (1 - 0.5 * sin (pi * (t_in_period_of ?d - 0.9 * period_of ?d)
                                 / (0.1 * period_of ?d)))"
    and D: "\<not> get_radius (simulate_step ?d) < 0.5 * m_ambient_radius_mm ?d \<longrightarrow>
             get_max_temperature (simulate_step ?d) = 0 \<and>
             get_emitted_light (simulate_step ?d) = 0"
    by blast+
  from C have rd: "get_radius (simulate_step ?d) = 3 / 4"
    unfolding td pd ad by (simp add: sin_30)
  have "\<not> get_radius (simulate_step ?d) < 0.5 * m_ambient_radius_mm ?d"
    unfolding rd ad by simp
  with D have Z: "get_max_temperature (simulate_step ?d) = 0 \<and>
             get_emitted_light (simulate_step ?d) = 0"
    by blast
  show ?thesis using fe ee re fs cs rs T' L' fd cd rd Z by blast
qed

text \<open>
  C5. The claim: with a positive frequency and a positive ambient radius, after any
  step the emitted light is positive exactly when the peak temperature of that step is
  at least 1000. Through the facade: construct, \<^verbatim>\<open>set_parameters(55, 1.35, -1, ...)\<close>,
  \<^verbatim>\<open>step()\<close>, \<^verbatim>\<open>set_parameters(1, 1, 1, ...)\<close>, \<^verbatim>\<open>step()\<close>. The last step runs with
  frequency 1 and ambient radius 1 and takes the expansion branch; after it the peak
  temperature is 0 and the light is \<open>exp (97/30)\<close>, positive, in the model and in the
  facade's copies.
\<close>

theorem C5_light_positive_at_temperature_zero:
  "0 < m_frequency_hz (physics (set_parameters 1 1 1 ''Argon'' ''Water''
         (step (set_parameters 55 1.35 (- 1) ''Argon'' ''Water'' Simulator_init)))) \<and>
   0 < m_ambient_radius_mm (physics (set_parameters 1 1 1 ''Argon'' ''Water''
         (step (set_parameters 55 1.35 (- 1) ''Argon'' ''Water'' Simulator_init)))) \<and>
   get_max_temperature (physics (step (set_parameters 1 1 1 ''Argon'' ''Water''
         (step (set_parameters 55 1.35 (- 1) ''Argon'' ''Water'' Simulator_init))))) = 0 \<and>
   get_emitted_light (physics (step (set_parameters 1 1 1 ''Argon'' ''Water''
         (step (set_parameters 55 1.35 (- 1) ''Argon'' ''Water'' Simulator_init)))))
     = exp (97 / 30) \<and>
   0 < get_emitted_light (physics (step (set_parameters 1 1 1 ''Argon'' ''Water''
         (step (set_parameters 55 1.35 (- 1) ''Argon'' ''Water'' Simulator_init))))) \<and>
   \<not> 1000 \<le> get_max_temperature (physics (step (set_parameters 1 1 1 ''Argon'' ''Water''
         (step (set_parameters 55 1.35 (- 1) ''Argon'' ''Water'' Simulator_init))))) \<and>
   0 < get_light_intensity (step (set_parameters 1 1 1 ''Argon'' ''Water''
         (step (set_parameters 55 1.35 (- 1) ''Argon'' ''Water'' Simulator_init)))) \<and>
   \<not> 1000 \<le> get_peak_temperature (step (set_parameters 1 1 1 ''Argon'' ''Water''
         (step (set_parameters 55 1.35 (- 1) ''Argon'' ''Water'' Simulator_init))))"
proof -
  have p: "physics (set_parameters 1 1 1 ''Argon'' ''Water''
         (step (set_parameters 55 1.35 (- 1) ''Argon'' ''Water'' Simulator_init))) =
       configure 1 1 1 ''Argon'' ''Water''
         (simulate_step (configure 55 1.35 (- 1) ''Argon'' ''Water'' SonolumiPhysics_init))"
    unfolding physics_set_parameters physics_step physics_Simulator_init configure_configure
    by (rule refl)
  have c: "get_light_intensity (step s) = get_emitted_light (physics (step s))"
    "get_peak_temperature (step s) = get_max_temperature (physics (step s))" for s
    by (simp_all add: step_def Let_def facade_getter_defs)
  show ?thesis
    unfolding c
    unfolding physics_step p
    unfolding stale_light_step getter_defs
    using stale_light_state by simp
qed

text \<open>
  C6. Configuring, through the model's setters or through \<^verbatim>\<open>set_parameters\<close>, leaves
  the elapsed time as it is, whatever the five parameters and whatever the state; the
  time is 0 after either constructor.
\<close>

theorem C6_configure_keeps_time:
  "m_time (configure f p a g l m) = m_time m \<and>
   m_time (physics (set_parameters f p a g l s)) = m_time (physics s) \<and>
   m_time (set_frequency f m) = m_time m \<and>
   m_time (set_pressure p m) = m_time m \<and>
   m_time (set_ambient_radius a m) = m_time m \<and>
   m_time (set_gas_type g m) = m_time m \<and>
   m_time (set_liquid_type l m) = m_time m \<and>
   m_time SonolumiPhysics_init = 0 \<and>
   m_time (physics Simulator_init) = 0"
  by (simp add: physics_set_parameters configure_fields init_fields Simulator_init_def
      setter_defs)

theorem C6_configure_keeps_time_witness:
  "m_time (physics (set_parameters 30000 1 0.01 ''Xenon'' ''Water'' (step (step Simulator_init))))
     = m_time (physics (step (step Simulator_init))) \<and>
   m_time (physics (step (step Simulator_init))) = 1 / 30"
proof -
  have "m_time (physics (step (step Simulator_init))) = 1 / 30"
    by (simp add: physics_step simulate_step_time Simulator_init_def physics_set_parameters
        configure_fields init_fields)
  then show ?thesis
    using C6_configure_keeps_time
      [of 30000 1 "0.01" "''Xenon''" "''Water''" _ "step (step Simulator_init)"]
    by simp
qed

text \<open>
  C8. A step that takes the expansion branch advances the time, writes the radius and
  sets the peak temperature to 0, and leaves the stored light intensity as it was; over
  any run of such steps the emitted light stays what it was before the run.
\<close>

theorem C8_expansion_keeps_light:
  "(t_in_period_of m < 0.9 * period_of m \<longrightarrow>
      m_time (simulate_step m) = m_time m + 1 / 60 \<and>
      get_radius (simulate_step m) =
        m_ambient_radius_mm m * (1 + 1 * sin (t_in_period_of m / period_of m * pi)) \<and>
      get_max_temperature (simulate_step m) = 0 \<and>
      get_emitted_light (simulate_step m) = get_emitted_light m) \<and>
   (expansion_run n m \<longrightarrow>
      get_emitted_light ((simulate_step ^^ n) m) = get_emitted_light m)"
proof (intro conjI impI)
  assume "t_in_period_of m < 0.9 * period_of m"
  then have e: "t_in_period_of m < period_of m * 0.9" by (simp add: mult.commute)
  show "m_time (simulate_step m) = m_time m + 1 / 60"
    and "get_radius (simulate_step m) =
        m_ambient_radius_mm m * (1 + 1 * sin (t_in_period_of m / period_of m * pi))"
    and "get_max_temperature (simulate_step m) = 0"
    and "get_emitted_light (simulate_step m) = get_emitted_light m"
    by (simp_all add: simulate_step_expansion [OF e] getter_defs)
next
  assume "expansion_run n m"
  then show "get_emitted_light ((simulate_step ^^ n) m) = get_emitted_light m"
    by (simp add: expansion_run_light getter_defs)
qed

text \<open>
  The example is a model that emitted light under a negative ambient radius and was
  then configured with frequency 1 and radius 1: its next two steps are expansion
  steps, and the light is still the one of the collapse step.
\<close>

theorem C8_expansion_keeps_light_witness:
  "t_in_period_of (configure 1 1 1 ''Argon'' ''Water''
       (simulate_step (configure 55 1.35 (- 1) ''Argon'' ''Water'' SonolumiPhysics_init)))
     < 0.9 * period_of (configure 1 1 1 ''Argon'' ''Water''
       (simulate_step (configure 55 1.35 (- 1) ''Argon'' ''Water'' SonolumiPhysics_init))) \<and>
   get_emitted_light (simulate_step (configure 1 1 1 ''Argon'' ''Water''
       (simulate_step (configure 55 1.35 (- 1) ''Argon'' ''Water'' SonolumiPhysics_init))))
     = exp (97 / 30) \<and>
   expansion_run (Suc (Suc 0)) (configure 1 1 1 ''Argon'' ''Water''
       (simulate_step (configure 55 1.35 (- 1) ''Argon'' ''Water'' SonolumiPhysics_init))) \<and>
   get_emitted_light ((simulate_step ^^ Suc (Suc 0)) (configure 1 1 1 ''Argon'' ''Water''
       (simulate_step (configure 55 1.35 (- 1) ''Argon'' ''Water'' SonolumiPhysics_init))))
     = exp (97 / 30)"
proof -
  let ?m = "configure 1 1 1 ''Argon'' ''Water''
       (simulate_step (configure 55 1.35 (- 1) ''Argon'' ''Water'' SonolumiPhysics_init))"
  have t: "m_time ?m = 1 / 60" and f: "m_frequency_hz ?m = 1"
    by (simp_all add: configure_fields simulate_step_time init_fields)
  have l: "get_emitted_light ?m = exp (97 / 30)"
    unfolding negative_radius_step by (simp add: getter_defs configure_fields)
  have e1: "t_in_period_of ?m < 0.9 * period_of ?m"
    unfolding t_in_period_of_def period_of_def t f by (simp add: fmod_def trunc_def)
  have e2: "t_in_period_of (simulate_step ?m) < 0.9 * period_of (simulate_step ?m)"
    unfolding t_in_period_of_def period_of_def simulate_step_time simulate_step_params t f
    by (simp add: fmod_def trunc_def)
  have r: "expansion_run (Suc (Suc 0)) ?m" using e1 e2 by simp
  from C8_expansion_keeps_light [of ?m] e1
  have "get_emitted_light (simulate_step ?m) = get_emitted_light ?m" by blast
  then have l1: "get_emitted_light (simulate_step ?m) = exp (97 / 30)" unfolding l .
  from C8_expansion_keeps_light [of ?m "Suc (Suc 0)"] r
  have "get_emitted_light ((simulate_step ^^ Suc (Suc 0)) ?m) = get_emitted_light ?m"
    by blast
  then have l2: "get_emitted_light ((simulate_step ^^ Suc (Suc 0)) ?m) = exp (97 / 30)"
    unfolding l .
  show ?thesis using e1 l1 r l2 by blast
qed

text \<open>
  C9. What the facade returns after \<^verbatim>\<open>set_parameters\<close> and \<open>n\<close> steps is determined by
  the five parameters, \<open>n\<close>, and the elapsed time and stored light of the model at the
  moment of the call: two facades that agree on these two values return the same
  radius, peak temperature and light intensity at every point. Two freshly constructed
  facades agree on them. The step reads nothing but the state, so there is no clock
  and no random source to depend on.
\<close>

theorem C9_outputs_determined:
  fixes s1 s2 :: Simulator
  assumes "m_time (physics s1) = m_time (physics s2)"
    and "m_light_intensity (physics s1) = m_light_intensity (physics s2)"
  shows "outputs ((step ^^ n) (set_parameters f p r g l s1)) =
         outputs ((step ^^ n) (set_parameters f p r g l s2))"
proof (cases n)
  case 0
  then show ?thesis
    by (simp add: outputs_def facade_getter_defs set_parameters_def Let_def)
next
  case (Suc k)
  then show ?thesis
    by (simp add: funpow_swap1 step_set_parameters_agree [OF assms])
qed

theorem C9_outputs_determined_witness:
  "m_time (physics Simulator_init) =
     m_time (physics (set_parameters 1 2 3 ''Xenon'' ''Oil'' Simulator_init)) \<and>
   m_light_intensity (physics Simulator_init) =
     m_light_intensity (physics (set_parameters 1 2 3 ''Xenon'' ''Oil'' Simulator_init)) \<and>
   outputs ((step ^^ 5) (set_parameters 20000 1.35 0.005 ''Argon'' ''Water'' Simulator_init)) =
   outputs ((step ^^ 5) (set_parameters 20000 1.35 0.005 ''Argon'' ''Water''
              (set_parameters 1 2 3 ''Xenon'' ''Oil'' Simulator_init)))"
proof -
  have t: "m_time (physics Simulator_init) =
     m_time (physics (set_parameters 1 2 3 ''Xenon'' ''Oil'' Simulator_init))"
    by (simp add: physics_set_parameters configure_fields)
  have l: "m_light_intensity (physics Simulator_init) =
     m_light_intensity (physics (set_parameters 1 2 3 ''Xenon'' ''Oil'' Simulator_init))"
    by (simp add: physics_set_parameters configure_fields)
  show ?thesis using t l C9_outputs_determined [OF t l] by blast
qed

text \<open>
  C10. Two runs that differ only in the gas and liquid labels passed to
  \<^verbatim>\<open>set_parameters\<close> return the same radius, peak temperature and light intensity
  after every number of steps, from the facade and from the model: the states of the
  two runs differ in the two stored labels and in nothing else.
\<close>

theorem C10_labels_inert:
  "(step ^^ n) (set_parameters f p r g2 l2 s) =
     relabel g2 l2 ((step ^^ n) (set_parameters f p r g1 l1 s)) \<and>
   outputs ((step ^^ n) (set_parameters f p r g2 l2 s)) =
     outputs ((step ^^ n) (set_parameters f p r g1 l1 s)) \<and>
   get_radius (physics ((step ^^ n) (set_parameters f p r g2 l2 s))) =
     get_radius (physics ((step ^^ n) (set_parameters f p r g1 l1 s))) \<and>
   get_max_temperature (physics ((step ^^ n) (set_parameters f p r g2 l2 s))) =
     get_max_temperature (physics ((step ^^ n) (set_parameters f p r g1 l1 s))) \<and>
   get_emitted_light (physics ((step ^^ n) (set_parameters f p r g2 l2 s))) =
     get_emitted_light (physics ((step ^^ n) (set_parameters f p r g1 l1 s)))"
proof -
  have "(step ^^ n) (set_parameters f p r g2 l2 s) =
        relabel g2 l2 ((step ^^ n) (set_parameters f p r g1 l1 s))"
    unfolding set_parameters_relabel [of f p r g2 l2 s g1 l1] by (rule funpow_step_relabel)
  then show ?thesis by (simp add: relabel_reads)
qed

theorem C10_labels_inert_witness:
  "outputs ((step ^^ 7) (set_parameters 20000 1.35 0.005 ''Xenon'' ''Oil'' Simulator_init)) =
   outputs ((step ^^ 7) (set_parameters 20000 1.35 0.005 ''Argon'' ''Water'' Simulator_init))"
  using C10_labels_inert [of 7 20000 "1.35" "0.005" "''Xenon''" "''Oil''" Simulator_init
      "''Argon''" "''Water''"]
  by blast

end
